theory Spec2Isabelle
  imports Complex_Main "HOL-Library.Multiset"
begin

section \<open>The transaction API of \<^verbatim>\<open>server.js\<close>\<close>

text \<open>
  \<^verbatim>\<open>server.js\<close> is an Express application with five route handlers over one Prisma
  model, \<^verbatim>\<open>transaction\<close>. The handlers are embedded below as functions that take the
  state of the persistence client and return the HTTP response together with the new
  state. What the handlers call but the file does not define is kept apart:
  \<^item> the JavaScript built-ins \<^verbatim>\<open>parseFloat\<close>, \<^verbatim>\<open>new Date\<close> and the truthiness test follow
    ECMA-262;
  \<^item> \<^verbatim>\<open>ObjectId.isValid\<close> (package \<^verbatim>\<open>mongodb\<close>) and \<^verbatim>\<open>Date.parse\<close> on strings (whose
    fallback formats are implementation-defined) are parameters of the handlers;
  \<^item> the Prisma client is modelled from the specification.
\<close>

subsection \<open>JavaScript values\<close>

text \<open>
  A Number is a double. A finite Number is represented by its value, a rational; the two
  zeros are not told apart (both are falsy, and both print as \<^verbatim>\<open>0\<close>). The rounding of
  a decimal literal to the nearest double is not modelled: \<^verbatim>\<open>parseFloat\<close> below gives
  the exact value of the literal, and only the overflow to an infinity is kept.
\<close>

datatype jsnum = Finite rat | NaN | PosInfinity | NegInfinity

text \<open>
  The value of a field of a parsed JSON body, after destructuring: \<open>JUndefined\<close> is what
  an absent field gives. Strings are sequences of 8-bit characters (the code units
  U+0000 to U+00FF). Fields holding arrays or objects are outside this model.
\<close>

datatype jsval = JUndefined | JNull | JBool bool | JNum jsnum | JStr string

text \<open>The time value of a \<^verbatim>\<open>Date\<close> object: milliseconds since the epoch, or NaN.\<close>

datatype jsdate = DateValue int | InvalidDate

fun isFinite :: "jsnum \<Rightarrow> bool" where
  "isFinite (Finite r) = True"
| "isFinite NaN = False"
| "isFinite PosInfinity = False"
| "isFinite NegInfinity = False"

fun isValidDate :: "jsdate \<Rightarrow> bool" where
  "isValidDate (DateValue t) = True"
| "isValidDate InvalidDate = False"

text \<open>\<^verbatim>\<open>!id\<close> negates ToBoolean (ECMA-262, 7.1.2).\<close>

fun ToBoolean :: "jsval \<Rightarrow> bool" where
  "ToBoolean JUndefined = False"
| "ToBoolean JNull = False"
| "ToBoolean (JBool b) = b"
| "ToBoolean (JNum (Finite r)) = (r \<noteq> 0)"
| "ToBoolean (JNum NaN) = False"
| "ToBoolean (JNum PosInfinity) = True"
| "ToBoolean (JNum NegInfinity) = True"
| "ToBoolean (JStr s) = (s \<noteq> [])"

subsection \<open>\<^verbatim>\<open>parseFloat\<close>\<close>

text \<open>
  ECMA-262, 19.2.4: the argument is converted to a string, leading white space is
  dropped, and the longest prefix that is a \<^verbatim>\<open>StrDecimalLiteral\<close> is converted; when
  there is none the result is NaN.
\<close>

definition isWhiteSpace :: "char \<Rightarrow> bool" where
  "isWhiteSpace c = (of_char c \<in> {9, 10, 11, 12, 13, 32, 160 :: nat})"

definition isDigit :: "char \<Rightarrow> bool" where
  "isDigit c = (c \<in> set ''0123456789'')"

definition digitValue :: "char \<Rightarrow> nat" where
  "digitValue c = of_char c - 48"

text \<open>The mathematical value of a string of decimal digits, most significant first.\<close>

fun digitsValue :: "nat \<Rightarrow> string \<Rightarrow> nat" where
  "digitsValue acc [] = acc"
| "digitsValue acc (c # cs) = digitsValue (10 * acc + digitValue c) cs"

text \<open>
  The Number value for a rational: the largest double is \<open>2^1024 - 2^971\<close>, and rounding
  to nearest gives an infinity from \<open>2^1024 - 2^970\<close> on. Below that the value is kept as
  it is.
\<close>

definition NumberValue :: "rat \<Rightarrow> jsnum" where
  "NumberValue r =
     (if 2 ^ 1024 - 2 ^ 970 \<le> r then PosInfinity
      else if r \<le> - (2 ^ 1024 - 2 ^ 970) then NegInfinity
      else Finite r)"

definition negate :: "jsnum \<Rightarrow> jsnum" where
  "negate n = (case n of Finite r \<Rightarrow> Finite (- r) | NaN \<Rightarrow> NaN
                 | PosInfinity \<Rightarrow> NegInfinity | NegInfinity \<Rightarrow> PosInfinity)"

text \<open>
  The exponent part \<^verbatim>\<open>e\<close>, an optional sign and at least one digit; it belongs to the
  literal only when the digits are there.
\<close>

definition exponentPart :: "string \<Rightarrow> int" where
  "exponentPart s =
     (case s of
        [] \<Rightarrow> 0
      | c # t \<Rightarrow>
          if c = CHR ''e'' \<or> c = CHR ''E'' then
            (case t of
               [] \<Rightarrow> 0
             | d # u \<Rightarrow>
                 if d = CHR ''+'' then int (digitsValue 0 (takeWhile isDigit u))
                 else if d = CHR ''-'' then - int (digitsValue 0 (takeWhile isDigit u))
                 else int (digitsValue 0 (takeWhile isDigit t)))
          else 0)"

text \<open>\<^verbatim>\<open>StrUnsignedDecimalLiteral\<close>: the longest prefix of the string that is one.\<close>

definition unsignedDecimalLiteral :: "string \<Rightarrow> jsnum" where
  "unsignedDecimalLiteral s =
     (if take 8 s = ''Infinity'' then PosInfinity
      else
        let ip = takeWhile isDigit s;
            r1 = dropWhile isDigit s;
            dot = (r1 \<noteq> [] \<and> hd r1 = CHR ''.'');
            fp = (if dot then takeWhile isDigit (tl r1) else []);
            r2 = (if dot then dropWhile isDigit (tl r1) else r1)
        in if ip = [] \<and> fp = [] then NaN
           else
             let e = exponentPart r2 - int (length fp);
                 m = of_nat (digitsValue 0 (ip @ fp))
             in NumberValue (if 0 \<le> e then m * 10 ^ nat e else m / 10 ^ nat (- e)))"

definition parseFloat_string :: "string \<Rightarrow> jsnum" where
  "parseFloat_string s =
     (case dropWhile isWhiteSpace s of
        [] \<Rightarrow> NaN
      | c # t \<Rightarrow>
          if c = CHR ''+'' then unsignedDecimalLiteral t
          else if c = CHR ''-'' then negate (unsignedDecimalLiteral t)
          else unsignedDecimalLiteral (c # t))"

text \<open>
  ToString of a Number is not modelled: it prints the shortest decimal that reads back
  as the same Number (ECMA-262, 6.1.6.1.20), so \<^verbatim>\<open>parseFloat\<close> of a Number is that
  Number. The other values print as the words \<^verbatim>\<open>undefined\<close>, \<^verbatim>\<open>null\<close>, \<^verbatim>\<open>true\<close> and
  \<^verbatim>\<open>false\<close>.
\<close>

fun parseFloat :: "jsval \<Rightarrow> jsnum" where
  "parseFloat (JStr s) = parseFloat_string s"
| "parseFloat (JNum n) = n"
| "parseFloat JUndefined = parseFloat_string ''undefined''"
| "parseFloat JNull = parseFloat_string ''null''"
| "parseFloat (JBool b) = parseFloat_string (if b then ''true'' else ''false'')"

subsection \<open>\<^verbatim>\<open>new Date(value)\<close>\<close>

text \<open>
  ECMA-262, 21.4.1.31 (TimeClip) and 21.4.2.1 (the constructor with one argument): a
  string is parsed, any other primitive is converted with ToNumber, and the result is
  clipped to an integral time value of magnitude at most \<open>8.64 * 10^15\<close>.
\<close>

definition truncate_rat :: "rat \<Rightarrow> int" where
  "truncate_rat r = (if 0 \<le> r then \<lfloor>r\<rfloor> else \<lceil>r\<rceil>)"

fun TimeClip :: "jsnum \<Rightarrow> jsdate" where
  "TimeClip (Finite r) =
     (if 8640000000000000 < \<bar>r\<bar> then InvalidDate else DateValue (truncate_rat r))"
| "TimeClip NaN = InvalidDate"
| "TimeClip PosInfinity = InvalidDate"
| "TimeClip NegInfinity = InvalidDate"

fun new_Date :: "(string \<Rightarrow> jsnum) \<Rightarrow> jsval \<Rightarrow> jsdate" where
  "new_Date parse (JStr s) = TimeClip (parse s)"
| "new_Date parse (JNum n) = TimeClip n"
| "new_Date parse JUndefined = TimeClip NaN"
| "new_Date parse JNull = TimeClip (Finite 0)"
| "new_Date parse (JBool b) = TimeClip (Finite (if b then 1 else 0))"

subsection \<open>Transactions and responses\<close>

text \<open>
  A transaction as the client returns it and as \<^verbatim>\<open>res.json\<close> receives it. The field
  \<open>id'\<close> is the source's \<^verbatim>\<open>id\<close>.
\<close>

record transaction =
  id' :: jsval
  amount :: jsnum
  date :: jsdate
  description :: jsval

datatype json =
    TransactionList "transaction list"
  | TransactionJson transaction
  | ErrorJson string
  | MessageJson string

record response =
  status :: nat
  json :: json

text \<open>The entries of the specification's error taxonomy, as the responses that carry them.\<close>

abbreviation MissingIdentifier :: response where
  "MissingIdentifier \<equiv> \<lparr>status = 400, json = ErrorJson ''Transaction ID is required''\<rparr>"

abbreviation InvalidIdentifier :: response where
  "InvalidIdentifier \<equiv> \<lparr>status = 400, json = ErrorJson ''Invalid transaction ID format''\<rparr>"

abbreviation NotFound :: response where
  "NotFound \<equiv> \<lparr>status = 404, json = ErrorJson ''Transaction not found''\<rparr>"

abbreviation DuplicateIdentifier :: response where
  "DuplicateIdentifier \<equiv>
     \<lparr>status = 409, json = ErrorJson ''A transaction with this ID already exists''\<rparr>"

subsection \<open>The persistence client\<close>

text \<open>
  An error thrown by the client; the handlers read its \<^verbatim>\<open>code\<close>, which is absent on
  errors that are not known request errors.
\<close>

datatype prisma_error = PrismaError "string option"

fun error_code :: "prisma_error \<Rightarrow> string option" where
  "error_code (PrismaError c) = c"

text \<open>
  The generated Prisma client (\<^verbatim>\<open>prisma.transaction\<close>) is not in \<^verbatim>\<open>server.js\<close>; the
  definitions of this subsection are modelled from sections 3 and 4.1 of the
  specification. The state of the client is the stored transactions, in insertion order,
  and the calls it has received, oldest first. The client compares identifiers as
  given and is always reachable.
\<close>

datatype prisma_call =
    FindMany
  | FindUnique jsval
  | Create transaction
  | Update jsval jsnum jsdate jsval
  | Delete jsval

record prisma =
  rows :: "transaction list"
  calls :: "prisma_call list"

definition stored_ids :: "prisma \<Rightarrow> jsval set" where
  "stored_ids db = id' ` set (rows db)"

definition received :: "prisma_call \<Rightarrow> prisma \<Rightarrow> prisma" where
  "received c db = db\<lparr>calls := calls db @ [c]\<rparr>"

text \<open>
  Modelled from the spec: the order of \<^verbatim>\<open>orderBy: { date: 'desc' }\<close>, which the client
  computes. The specification orders by date, most recent first; a stored date that is
  invalid is placed below every valid one.
\<close>

fun date_le :: "jsdate \<Rightarrow> jsdate \<Rightarrow> bool" where
  "date_le InvalidDate d = True"
| "date_le (DateValue a) (DateValue b) = (a \<le> b)"
| "date_le (DateValue a) InvalidDate = False"

text \<open>
  Modelled from the spec: the sort behind \<^verbatim>\<open>findMany\<close>, an insertion sort into
  descending order of date.
\<close>

fun insert_desc :: "transaction \<Rightarrow> transaction list \<Rightarrow> transaction list" where
  "insert_desc t [] = [t]"
| "insert_desc t (u # us) =
     (if date_le (date u) (date t) then t # u # us else u # insert_desc t us)"

fun orderBy_date_desc :: "transaction list \<Rightarrow> transaction list" where
  "orderBy_date_desc [] = []"
| "orderBy_date_desc (t # ts) = insert_desc t (orderBy_date_desc ts)"

text \<open>
  Modelled from the spec: \<^verbatim>\<open>prisma.transaction.findMany\<close> is not in \<^verbatim>\<open>server.js\<close>. List
  ``returns all transactions ordered by date descending (most recent first)''.
\<close>

definition prisma_findMany :: "prisma \<Rightarrow> (prisma_error + transaction list) \<times> prisma" where
  "prisma_findMany db = (Inr (orderBy_date_desc (rows db)), received FindMany db)"

text \<open>
  Modelled from the spec: \<^verbatim>\<open>prisma.transaction.findUnique\<close> is not in \<^verbatim>\<open>server.js\<close>. The
  lookup gives the transaction with the identifier, or nothing ``if no transaction with
  that id exists''.
\<close>

definition prisma_findUnique ::
  "jsval \<Rightarrow> prisma \<Rightarrow> (prisma_error + transaction option) \<times> prisma" where
  "prisma_findUnique i db =
     (Inr (find (\<lambda>t. id' t = i) (rows db)), received (FindUnique i) db)"

text \<open>
  Modelled from the spec: the check the client makes on the data of a write, before any
  query. Section 3 of the specification has every stored amount a finite number and
  every stored date a valid timestamp, and section 7 counts ``unrecognized coercion
  results'' among the persistence-layer errors that are neither not-found nor a
  uniqueness violation: the client refuses an amount that is not finite and a date that
  is invalid.
\<close>

definition accepts :: "jsnum \<Rightarrow> jsdate \<Rightarrow> bool" where
  "accepts a d = (isFinite a \<and> isValidDate d)"

text \<open>
  Modelled from the spec: \<^verbatim>\<open>prisma.transaction.create\<close> is not in \<^verbatim>\<open>server.js\<close>. Data the
  client refuses gives an error without a code. Then ``insert; the persistence
  collaborator enforces uniqueness'': when a transaction with the identifier exists the
  client throws the uniqueness violation, which the handler recognises by the code
  \<^verbatim>\<open>P2002\<close>; otherwise it stores the transaction and returns it.
\<close>

definition prisma_create ::
  "transaction \<Rightarrow> prisma \<Rightarrow> (prisma_error + transaction) \<times> prisma" where
  "prisma_create data db =
     (if \<not> accepts (amount data) (date data)
      then (Inl (PrismaError None), received (Create data) db)
      else
        case find (\<lambda>t. id' t = id' data) (rows db) of
          Some t \<Rightarrow> (Inl (PrismaError (Some ''P2002'')), received (Create data) db)
        | None \<Rightarrow> (Inr data, received (Create data) (db\<lparr>rows := rows db @ [data]\<rparr>)))"

text \<open>
  Modelled from the spec: what an update writes into a stored transaction. The
  specification's Update is given all three mutable fields and replaces them. A
  description that is \<^verbatim>\<open>undefined\<close> is no field of the data: the client writes the
  fields the data has, and the stored description stays.
\<close>

definition written :: "jsnum \<Rightarrow> jsdate \<Rightarrow> jsval \<Rightarrow> transaction \<Rightarrow> transaction" where
  "written a d s u =
     u\<lparr>amount := a, date := d,
       description := (if s = JUndefined then description u else s)\<rparr>"

text \<open>
  Modelled from the spec: \<^verbatim>\<open>prisma.transaction.update\<close> is not in \<^verbatim>\<open>server.js\<close>. Data the
  client refuses gives an error without a code. Then ``replace all mutable fields of the
  matching transaction'': when no transaction has the identifier the client throws the
  not-found error, which the handler recognises by the code \<^verbatim>\<open>P2025\<close>; otherwise the
  fields are written and the updated transaction is returned.
\<close>

definition prisma_update ::
  "jsval \<Rightarrow> jsnum \<Rightarrow> jsdate \<Rightarrow> jsval \<Rightarrow> prisma \<Rightarrow> (prisma_error + transaction) \<times> prisma" where
  "prisma_update i a d s db =
     (if \<not> accepts a d
      then (Inl (PrismaError None), received (Update i a d s) db)
      else
        case find (\<lambda>t. id' t = i) (rows db) of
          None \<Rightarrow> (Inl (PrismaError (Some ''P2025'')), received (Update i a d s) db)
        | Some t \<Rightarrow>
            (Inr (written a d s t),
             received (Update i a d s)
               (db\<lparr>rows := map (\<lambda>u. if id' u = i then written a d s u else u) (rows db)\<rparr>)))"

text \<open>
  Modelled from the spec: \<^verbatim>\<open>prisma.transaction.delete\<close> is not in \<^verbatim>\<open>server.js\<close>. ``Remove
  the matching transaction'': when no transaction has the identifier the client throws
  the not-found error (code \<^verbatim>\<open>P2025\<close> in the handler); otherwise the transaction is
  removed and returned.
\<close>

definition prisma_delete ::
  "jsval \<Rightarrow> prisma \<Rightarrow> (prisma_error + transaction) \<times> prisma" where
  "prisma_delete i db =
     (case find (\<lambda>t. id' t = i) (rows db) of
        None \<Rightarrow> (Inl (PrismaError (Some ''P2025'')), received (Delete i) db)
      | Some t \<Rightarrow>
          (Inr t, received (Delete i) (db\<lparr>rows := filter (\<lambda>u. id' u \<noteq> i) (rows db)\<rparr>)))"

subsection \<open>The handlers of \<^verbatim>\<open>server.js\<close>\<close>

text \<open>
  What the handlers use from outside the file and the language: \<^verbatim>\<open>ObjectId.isValid\<close>
  (\<open>None\<close> when it throws) and \<^verbatim>\<open>Date.parse\<close> on strings.
\<close>

record runtime =
  ObjectId_isValid :: "jsval \<Rightarrow> bool option"
  Date_parse :: "string \<Rightarrow> jsnum"

definition isValidObjectId :: "runtime \<Rightarrow> jsval \<Rightarrow> bool" where
  "isValidObjectId rt i = (case ObjectId_isValid rt i of Some b \<Rightarrow> b | None \<Rightarrow> False)"

text \<open>A parsed JSON body and the destructuring \<^verbatim>\<open>const { amount, ... } = req.body\<close>.\<close>

type_synonym body = "string \<rightharpoonup> jsval"

definition field :: "body \<Rightarrow> string \<Rightarrow> jsval" where
  "field b k = (case b k of None \<Rightarrow> JUndefined | Some v \<Rightarrow> v)"

definition res_json :: "nat \<Rightarrow> json \<Rightarrow> response" where
  "res_json code j = \<lparr>status = code, json = j\<rparr>"

text \<open>\<^verbatim>\<open>app.get('/api/transactions')\<close>\<close>

definition get_transactions :: "prisma \<Rightarrow> response \<times> prisma" where
  "get_transactions db =
     (case prisma_findMany db of
        (Inr transactions, db') \<Rightarrow> (res_json 200 (TransactionList transactions), db')
      | (Inl error, db') \<Rightarrow> (res_json 500 (ErrorJson ''Failed to fetch transactions''), db'))"

text \<open>\<^verbatim>\<open>app.get('/api/transactions/:id')\<close>\<close>

definition get_transaction :: "runtime \<Rightarrow> string \<Rightarrow> prisma \<Rightarrow> response \<times> prisma" where
  "get_transaction rt i db =
     (if \<not> isValidObjectId rt (JStr i)
      then (res_json 400 (ErrorJson ''Invalid transaction ID format''), db)
      else
        case prisma_findUnique (JStr i) db of
          (Inr None, db') \<Rightarrow> (res_json 404 (ErrorJson ''Transaction not found''), db')
        | (Inr (Some t), db') \<Rightarrow> (res_json 200 (TransactionJson t), db')
        | (Inl error, db') \<Rightarrow> (res_json 500 (ErrorJson ''Failed to fetch transaction''), db'))"

text \<open>\<^verbatim>\<open>app.post('/api/transactions')\<close>\<close>

definition create_data :: "runtime \<Rightarrow> body \<Rightarrow> transaction" where
  "create_data rt b =
     \<lparr>id' = field b ''id'',
      amount = parseFloat (field b ''amount''),
      date = new_Date (Date_parse rt) (field b ''date''),
      description = field b ''description''\<rparr>"

definition post_transaction :: "runtime \<Rightarrow> body \<Rightarrow> prisma \<Rightarrow> response \<times> prisma" where
  "post_transaction rt b db =
     (if \<not> ToBoolean (field b ''id'')
      then (res_json 400 (ErrorJson ''Transaction ID is required''), db)
      else if \<not> isValidObjectId rt (field b ''id'')
      then (res_json 400 (ErrorJson ''Invalid transaction ID format''), db)
      else
        case prisma_create (create_data rt b) db of
          (Inr t, db') \<Rightarrow> (res_json 201 (TransactionJson t), db')
        | (Inl error, db') \<Rightarrow>
            if error_code error = Some ''P2002''
            then (res_json 409 (ErrorJson ''A transaction with this ID already exists''), db')
            else (res_json 500 (ErrorJson ''Failed to create transaction''), db'))"

text \<open>\<^verbatim>\<open>app.put('/api/transactions/:id')\<close>\<close>

definition put_transaction ::
  "runtime \<Rightarrow> string \<Rightarrow> body \<Rightarrow> prisma \<Rightarrow> response \<times> prisma" where
  "put_transaction rt i b db =
     (if \<not> isValidObjectId rt (JStr i)
      then (res_json 400 (ErrorJson ''Invalid transaction ID format''), db)
      else
        case prisma_update (JStr i) (parseFloat (field b ''amount''))
               (new_Date (Date_parse rt) (field b ''date'')) (field b ''description'') db of
          (Inr t, db') \<Rightarrow> (res_json 200 (TransactionJson t), db')
        | (Inl error, db') \<Rightarrow>
            if error_code error = Some ''P2025''
            then (res_json 404 (ErrorJson ''Transaction not found''), db')
            else (res_json 500 (ErrorJson ''Failed to update transaction''), db'))"

text \<open>\<^verbatim>\<open>app.delete('/api/transactions/:id')\<close>\<close>

definition delete_transaction :: "runtime \<Rightarrow> string \<Rightarrow> prisma \<Rightarrow> response \<times> prisma" where
  "delete_transaction rt i db =
     (if \<not> isValidObjectId rt (JStr i)
      then (res_json 400 (ErrorJson ''Invalid transaction ID format''), db)
      else
        case prisma_delete (JStr i) db of
          (Inr t, db') \<Rightarrow> (res_json 200 (MessageJson ''Transaction deleted successfully''), db')
        | (Inl error, db') \<Rightarrow>
            if error_code error = Some ''P2025''
            then (res_json 404 (ErrorJson ''Transaction not found''), db')
            else (res_json 500 (ErrorJson ''Failed to delete transaction''), db'))"

subsection \<open>The identifier format of the specification\<close>

definition isHexDigit :: "char \<Rightarrow> bool" where
  "isHexDigit c = (c \<in> set ''0123456789abcdefABCDEF'')"

definition isHex24 :: "string \<Rightarrow> bool" where
  "isHex24 s = (length s = 24 \<and> list_all isHexDigit s)"

text \<open>
  Modelled from the spec: \<^verbatim>\<open>ObjectId.isValid\<close> belongs to the package \<^verbatim>\<open>mongodb\<close> and is
  not in \<^verbatim>\<open>server.js\<close>. The specification's glossary gives the identifier format it
  checks: a 24-character hexadecimal string.
\<close>

definition ObjectId_isValid_spec :: "jsval \<Rightarrow> bool option" where
  "ObjectId_isValid_spec v = (case v of JStr s \<Rightarrow> Some (isHex24 s) | _ \<Rightarrow> Some False)"

subsection \<open>Ordered lists and sample values\<close>

text \<open>A list of transactions is ordered by date descending: most recent first.\<close>

definition date_descending :: "transaction list \<Rightarrow> bool" where
  "date_descending ts = sorted_wrt (\<lambda>t u. date_le (date u) (date t)) ts"

text \<open>
  A \<^verbatim>\<open>Date.parse\<close> for the examples: three dates in the date-only ISO form, which is
  read as midnight UTC (ECMA-262, 21.4.1.32); every other string is unrecognised.
\<close>

definition Date_parse_sample :: "string \<Rightarrow> jsnum" where
  "Date_parse_sample s =
     (if s = ''2023-01-01'' then Finite 1672531200000
      else if s = ''2023-03-01'' then Finite 1677628800000
      else if s = ''2023-06-01'' then Finite 1685577600000
      else NaN)"

definition sample_runtime :: runtime where
  "sample_runtime =
     \<lparr>ObjectId_isValid = ObjectId_isValid_spec, Date_parse = Date_parse_sample\<rparr>"

section \<open>Basic facts\<close>

lemmas prisma_defs =
  prisma_findMany_def prisma_findUnique_def prisma_create_def prisma_update_def
  prisma_delete_def received_def accepts_def written_def

lemmas handler_defs =
  get_transactions_def get_transaction_def post_transaction_def put_transaction_def
  delete_transaction_def res_json_def

lemmas parse_defs =
  parseFloat_string_def unsignedDecimalLiteral_def isWhiteSpace_def isDigit_def
  exponentPart_def NumberValue_def digitValue_def negate_def truncate_rat_def

lemma find_id_None: "find (\<lambda>t. id' t = i) (rows db) = None \<longleftrightarrow> i \<notin> stored_ids db"
  by (auto simp: find_None_iff stored_ids_def)

lemma find_id_Some: "i \<in> stored_ids db \<Longrightarrow> \<exists>t. find (\<lambda>t. id' t = i) (rows db) = Some t"
  using find_id_None [of i db] by (cases "find (\<lambda>t. id' t = i) (rows db)") auto


lemma find_append_new: "find P xs = None \<Longrightarrow> P x \<Longrightarrow> find P (xs @ [x]) = Some x"
  by (induction xs) (auto split: if_splits)

lemma isValidObjectId_spec:
  "ObjectId_isValid rt = ObjectId_isValid_spec \<Longrightarrow> isValidObjectId rt (JStr i) = isHex24 i"
  by (simp add: isValidObjectId_def ObjectId_isValid_spec_def)

lemma sample_id_valid: "isValidObjectId sample_runtime (JStr ''507f1f77bcf86cd799439011'')"
  by (simp add: isValidObjectId_def sample_runtime_def ObjectId_isValid_spec_def isHex24_def
        isHexDigit_def)

lemma post_transaction_201:
  assumes "status (fst (post_transaction rt b db)) = 201"
  shows "ToBoolean (field b ''id'') \<and> isValidObjectId rt (field b ''id'') \<and>
         accepts (parseFloat (field b ''amount'')) (new_Date (Date_parse rt) (field b ''date'')) \<and>
         find (\<lambda>t. id' t = field b ''id'') (rows db) = None"
  using assms
  by (auto simp: post_transaction_def prisma_create_def res_json_def create_data_def
        split: if_splits option.splits)

lemma put_transaction_200:
  assumes "status (fst (put_transaction rt i b db)) = 200"
  shows "isValidObjectId rt (JStr i) \<and>
         accepts (parseFloat (field b ''amount'')) (new_Date (Date_parse rt) (field b ''date'')) \<and>
         (\<exists>t. find (\<lambda>t. id' t = JStr i) (rows db) = Some t)"
  using assms
  by (auto simp: put_transaction_def prisma_update_def res_json_def
        split: if_splits option.splits)

lemma post_transaction_rows:
  "rows (snd (post_transaction rt b db)) = rows db \<or>
   rows (snd (post_transaction rt b db)) = rows db @ [create_data rt b] \<and>
   status (fst (post_transaction rt b db)) = 201"
  by (auto simp: post_transaction_def prisma_create_def res_json_def received_def
        split: if_splits option.splits)

lemma put_transaction_rows:
  "rows (snd (put_transaction rt i b db)) = rows db \<or>
   rows (snd (put_transaction rt i b db)) =
     map (\<lambda>u. if id' u = JStr i
              then written (parseFloat (field b ''amount''))
                     (new_Date (Date_parse rt) (field b ''date'')) (field b ''description'') u
              else u) (rows db) \<and>
   status (fst (put_transaction rt i b db)) = 200"
  by (auto simp: put_transaction_def prisma_update_def res_json_def received_def
        split: if_splits option.splits)

subsection \<open>The order on dates and the sort\<close>

lemma date_le_total: "date_le a b \<or> date_le b a"
  by (cases a; cases b) auto

lemma date_le_trans: "date_le a b \<Longrightarrow> date_le b c \<Longrightarrow> date_le a c"
  by (cases a; cases b; cases c) auto

lemma date_le_antisym: "date_le a b \<Longrightarrow> date_le b a \<Longrightarrow> a = b"
  by (cases a; cases b) auto

lemma mset_insert_desc: "mset (insert_desc t ts) = add_mset t (mset ts)"
  by (induction ts) auto

lemma set_insert_desc: "set (insert_desc t ts) = insert t (set ts)"
  by (induction ts) auto

lemma date_descending_insert_desc:
  "date_descending ts \<Longrightarrow> date_descending (insert_desc t ts)"
proof (induction ts)
  case Nil
  then show ?case by (simp add: date_descending_def)
next
  case (Cons u us)
  show ?case
  proof (cases "date_le (date u) (date t)")
    case True
    then show ?thesis
      using Cons.prems by (auto simp: date_descending_def intro: date_le_trans)
  next
    case False
    then have "date_le (date t) (date u)"
      using date_le_total by blast
    then show ?thesis
      using False Cons by (auto simp: date_descending_def set_insert_desc)
  qed
qed

lemma mset_orderBy_date_desc: "mset (orderBy_date_desc ts) = mset ts"
  by (induction ts) (auto simp: mset_insert_desc)

lemma date_descending_orderBy: "date_descending (orderBy_date_desc ts)"
proof (induction ts)
  case Nil
  show ?case by (simp add: date_descending_def)
next
  case (Cons t ts)
  then show ?case by (simp add: date_descending_insert_desc)
qed

text \<open>Two descending lists of the same dates are the same list.\<close>

lemma descending_dates_unique:
  "sorted_wrt (\<lambda>a b. date_le b a) xs \<Longrightarrow> sorted_wrt (\<lambda>a b. date_le b a) ys \<Longrightarrow>
   mset xs = mset ys \<Longrightarrow> xs = ys"
proof (induction xs arbitrary: ys)
  case Nil
  then show ?case by simp
next
  case (Cons x xs)
  from Cons.prems(3) obtain y ys' where ys: "ys = y # ys'"
    by (cases ys) auto
  have "x = y"
  proof (rule ccontr)
    assume neq: "x \<noteq> y"
    have "set (x # xs) = set ys"
      using Cons.prems(3) by (rule mset_eq_setD)
    then have "x \<in> set ys" and "y \<in> set (x # xs)"
      using ys by auto
    then have "x \<in> set ys'" and "y \<in> set xs"
      using neq ys by auto
    then have "date_le x y" and "date_le y x"
      using Cons.prems(1,2) ys by auto
    then show False
      using neq date_le_antisym by blast
  qed
  moreover from this have "mset xs = mset ys'"
    using Cons.prems(3) ys by simp
  ultimately show ?case
    using Cons.IH [of ys'] Cons.prems(1,2) ys by simp
qed

lemma orderBy_dates_determined:
  assumes "mset ts = mset us"
  shows "map date (orderBy_date_desc ts) = map date (orderBy_date_desc us)"
proof (rule descending_dates_unique)
  show "sorted_wrt (\<lambda>a b. date_le b a) (map date (orderBy_date_desc ts))"
    using date_descending_orderBy [of ts] by (simp add: date_descending_def sorted_wrt_map)
  show "sorted_wrt (\<lambda>a b. date_le b a) (map date (orderBy_date_desc us))"
    using date_descending_orderBy [of us] by (simp add: date_descending_def sorted_wrt_map)
  have "mset (orderBy_date_desc ts) = mset (orderBy_date_desc us)"
    using assms by (simp add: mset_orderBy_date_desc)
  then show "mset (map date (orderBy_date_desc ts)) = mset (map date (orderBy_date_desc us))"
    by (metis mset_map)
qed

section \<open>The claims\<close>

text \<open>
  C1. For every id string supplied to Get, Update or Delete, the handler accepts the id
  and issues a persistence call if and only if the id is a 24-character hexadecimal
  string; for any other id it answers InvalidIdentifier (400) and no persistence call is
  made. The format is the specification's; the handlers call the validator they are
  given. When the id has the format, exactly one call, for that id, is added to the
  calls the client has received; when it has not, the state of the client is returned
  as it was.
\<close>

theorem C1_identifier_gate:
  assumes "ObjectId_isValid rt = ObjectId_isValid_spec"
  shows
    "(calls (snd (get_transaction rt i db)) \<noteq> calls db) = isHex24 i \<and>
     (calls (snd (put_transaction rt i b db)) \<noteq> calls db) = isHex24 i \<and>
     (calls (snd (delete_transaction rt i db)) \<noteq> calls db) = isHex24 i \<and>
     (isHex24 i \<longrightarrow>
        calls (snd (get_transaction rt i db)) = calls db @ [FindUnique (JStr i)] \<and>
        calls (snd (put_transaction rt i b db)) =
          calls db @ [Update (JStr i) (parseFloat (field b ''amount''))
                        (new_Date (Date_parse rt) (field b ''date'')) (field b ''description'')] \<and>
        calls (snd (delete_transaction rt i db)) = calls db @ [Delete (JStr i)]) \<and>
     (\<not> isHex24 i \<longrightarrow>
        get_transaction rt i db = (InvalidIdentifier, db) \<and>
        put_transaction rt i b db = (InvalidIdentifier, db) \<and>
        delete_transaction rt i db = (InvalidIdentifier, db))"
  using isValidObjectId_spec [OF assms, of i]
  by (auto simp: handler_defs prisma_defs split: option.splits)

theorem C1_identifier_gate_witness:
  "ObjectId_isValid sample_runtime = ObjectId_isValid_spec \<and>
   isHex24 ''507f1f77bcf86cd799439011'' \<and>
   calls (snd (get_transaction sample_runtime ''507f1f77bcf86cd799439011''
     \<lparr>rows = [], calls = []\<rparr>)) = [FindUnique (JStr ''507f1f77bcf86cd799439011'')] \<and>
   \<not> isHex24 ''not-an-id'' \<and>
   delete_transaction sample_runtime ''not-an-id'' \<lparr>rows = [], calls = []\<rparr> =
     (InvalidIdentifier, \<lparr>rows = [], calls = []\<rparr>)"
proof -
  have v: "ObjectId_isValid sample_runtime = ObjectId_isValid_spec"
    by (simp add: sample_runtime_def)
  show ?thesis
    using v
      C1_identifier_gate [OF v, where i = "''507f1f77bcf86cd799439011''"
        and db = "\<lparr>rows = [], calls = []\<rparr>" and b = Map.empty]
      C1_identifier_gate [OF v, where i = "''not-an-id''"
        and db = "\<lparr>rows = [], calls = []\<rparr>" and b = Map.empty]
    by (simp add: isHex24_def isHexDigit_def)
qed

text \<open>
  C2. For every stored transaction, after the coercion step of Create or Update the
  stored amount is a finite number and the stored date is a valid timestamp, for all
  request-body values of amount and date. The handlers hand over what \<^verbatim>\<open>parseFloat\<close>
  and \<^verbatim>\<open>new Date\<close> return, unchecked, and the client refuses what is not a finite
  amount and a valid date. So a transaction that Create or Update has stored carries
  the coerced values, and they are finite and valid; a store whose transactions are all
  so stays so under both handlers; and a body whose amount or date does not coerce is
  not answered with success and changes no stored transaction.
\<close>

theorem C2_stored_amount_and_date:
  "(status (fst (post_transaction rt b db)) = 201 \<longrightarrow>
      (\<exists>tx. json (fst (post_transaction rt b db)) = TransactionJson tx \<and>
            tx \<in> set (rows (snd (post_transaction rt b db))) \<and>
            amount tx = parseFloat (field b ''amount'') \<and>
            date tx = new_Date (Date_parse rt) (field b ''date'') \<and>
            isFinite (amount tx) \<and> isValidDate (date tx))) \<and>
   (status (fst (put_transaction rt i b db)) = 200 \<longrightarrow>
      (\<forall>u \<in> set (rows (snd (put_transaction rt i b db))). id' u = JStr i \<longrightarrow>
            amount u = parseFloat (field b ''amount'') \<and>
            date u = new_Date (Date_parse rt) (field b ''date'') \<and>
            isFinite (amount u) \<and> isValidDate (date u))) \<and>
   ((\<forall>t \<in> set (rows db). isFinite (amount t) \<and> isValidDate (date t)) \<longrightarrow>
      (\<forall>t \<in> set (rows (snd (post_transaction rt b db))).
         isFinite (amount t) \<and> isValidDate (date t)) \<and>
      (\<forall>t \<in> set (rows (snd (put_transaction rt i b db))).
         isFinite (amount t) \<and> isValidDate (date t))) \<and>
   (\<not> isFinite (parseFloat (field b ''amount'')) \<or>
    \<not> isValidDate (new_Date (Date_parse rt) (field b ''date'')) \<longrightarrow>
      status (fst (post_transaction rt b db)) \<noteq> 201 \<and>
      rows (snd (post_transaction rt b db)) = rows db \<and>
      status (fst (put_transaction rt i b db)) \<noteq> 200 \<and>
      rows (snd (put_transaction rt i b db)) = rows db)"
proof (intro conjI impI)
  let ?a = "parseFloat (field b ''amount'')"
  let ?d = "new_Date (Date_parse rt) (field b ''date'')"
  {
    assume ok: "status (fst (post_transaction rt b db)) = 201"
    from post_transaction_201 [OF ok]
    show "\<exists>tx. json (fst (post_transaction rt b db)) = TransactionJson tx \<and>
            tx \<in> set (rows (snd (post_transaction rt b db))) \<and>
            amount tx = ?a \<and> date tx = ?d \<and> isFinite (amount tx) \<and> isValidDate (date tx)"
      by (auto simp: post_transaction_def prisma_create_def res_json_def received_def
            create_data_def accepts_def)
  }
  {
    assume ok: "status (fst (put_transaction rt i b db)) = 200"
    from put_transaction_200 [OF ok]
    show "\<forall>u \<in> set (rows (snd (put_transaction rt i b db))). id' u = JStr i \<longrightarrow>
            amount u = ?a \<and> date u = ?d \<and> isFinite (amount u) \<and> isValidDate (date u)"
      by (auto simp: put_transaction_def prisma_update_def res_json_def received_def
            accepts_def written_def)
  }
  {
    assume inv: "\<forall>t \<in> set (rows db). isFinite (amount t) \<and> isValidDate (date t)"
    show "\<forall>t \<in> set (rows (snd (post_transaction rt b db))).
         isFinite (amount t) \<and> isValidDate (date t)"
      using post_transaction_rows [of rt b db] inv
        post_transaction_201 [of rt b db]
      by (auto simp: accepts_def create_data_def)
    show "\<forall>t \<in> set (rows (snd (put_transaction rt i b db))).
         isFinite (amount t) \<and> isValidDate (date t)"
      using put_transaction_rows [of rt i b db] inv
        put_transaction_200 [of rt i b db]
      by (auto simp: accepts_def written_def)
  }
  {
    assume bad: "\<not> isFinite ?a \<or> \<not> isValidDate ?d"
    then have na: "\<not> accepts ?a ?d"
      by (auto simp: accepts_def)
    show "status (fst (post_transaction rt b db)) \<noteq> 201"
      using na post_transaction_201 [of rt b db] by blast
    then show "rows (snd (post_transaction rt b db)) = rows db"
      using post_transaction_rows [of rt b db] by blast
    show "status (fst (put_transaction rt i b db)) \<noteq> 200"
      using na put_transaction_200 [of rt i b db] by blast
    then show "rows (snd (put_transaction rt i b db)) = rows db"
      using put_transaction_rows [of rt i b db] by blast
  }
qed

theorem C2_stored_amount_and_date_witness:
  "post_transaction sample_runtime
      [''id'' \<mapsto> JStr ''507f1f77bcf86cd799439011'', ''amount'' \<mapsto> JStr ''12.5'',
       ''date'' \<mapsto> JStr ''2023-06-01'', ''description'' \<mapsto> JStr ''lunch'']
      \<lparr>rows = [], calls = []\<rparr> =
     (\<lparr>status = 201, json = TransactionJson
         \<lparr>id' = JStr ''507f1f77bcf86cd799439011'', amount = Finite (25 / 2),
          date = DateValue 1685577600000, description = JStr ''lunch''\<rparr>\<rparr>,
      \<lparr>rows = [\<lparr>id' = JStr ''507f1f77bcf86cd799439011'', amount = Finite (25 / 2),
                  date = DateValue 1685577600000, description = JStr ''lunch''\<rparr>],
       calls = [Create \<lparr>id' = JStr ''507f1f77bcf86cd799439011'', amount = Finite (25 / 2),
                  date = DateValue 1685577600000, description = JStr ''lunch''\<rparr>]\<rparr>) \<and>
   (\<exists>tx. tx \<in> set (rows (snd (post_transaction sample_runtime
      [''id'' \<mapsto> JStr ''507f1f77bcf86cd799439011'', ''amount'' \<mapsto> JStr ''12.5'',
       ''date'' \<mapsto> JStr ''2023-06-01'', ''description'' \<mapsto> JStr ''lunch'']
      \<lparr>rows = [], calls = []\<rparr>))) \<and> isFinite (amount tx) \<and> isValidDate (date tx)) \<and>
   \<not> isFinite (parseFloat (field [''id'' \<mapsto> JStr ''507f1f77bcf86cd799439011'',
       ''amount'' \<mapsto> JStr ''abc'', ''description'' \<mapsto> JStr ''lunch''] ''amount'')) \<and>
   post_transaction sample_runtime
      [''id'' \<mapsto> JStr ''507f1f77bcf86cd799439011'', ''amount'' \<mapsto> JStr ''abc'',
       ''description'' \<mapsto> JStr ''lunch'']
      \<lparr>rows = [], calls = []\<rparr> =
     (\<lparr>status = 500, json = ErrorJson ''Failed to create transaction''\<rparr>,
      \<lparr>rows = [],
       calls = [Create \<lparr>id' = JStr ''507f1f77bcf86cd799439011'', amount = NaN,
                  date = InvalidDate, description = JStr ''lunch''\<rparr>]\<rparr>) \<and>
   rows (snd (put_transaction sample_runtime ''507f1f77bcf86cd799439011''
      [''id'' \<mapsto> JStr ''507f1f77bcf86cd799439011'', ''amount'' \<mapsto> JStr ''abc'',
       ''description'' \<mapsto> JStr ''lunch'']
      \<lparr>rows = [], calls = []\<rparr>)) = []"
proof -
  let ?good = "[''id'' \<mapsto> JStr ''507f1f77bcf86cd799439011'', ''amount'' \<mapsto> JStr ''12.5'',
       ''date'' \<mapsto> JStr ''2023-06-01'', ''description'' \<mapsto> JStr ''lunch'']"
  let ?bad = "[''id'' \<mapsto> JStr ''507f1f77bcf86cd799439011'', ''amount'' \<mapsto> JStr ''abc'',
       ''description'' \<mapsto> JStr ''lunch'']"
  let ?db = "\<lparr>rows = [], calls = []\<rparr>"
  have good: "post_transaction sample_runtime ?good ?db =
     (\<lparr>status = 201, json = TransactionJson
         \<lparr>id' = JStr ''507f1f77bcf86cd799439011'', amount = Finite (25 / 2),
          date = DateValue 1685577600000, description = JStr ''lunch''\<rparr>\<rparr>,
      \<lparr>rows = [\<lparr>id' = JStr ''507f1f77bcf86cd799439011'', amount = Finite (25 / 2),
                  date = DateValue 1685577600000, description = JStr ''lunch''\<rparr>],
       calls = [Create \<lparr>id' = JStr ''507f1f77bcf86cd799439011'', amount = Finite (25 / 2),
                  date = DateValue 1685577600000, description = JStr ''lunch''\<rparr>]\<rparr>)"
    by (simp add: handler_defs prisma_defs isValidObjectId_def ObjectId_isValid_spec_def
          isHex24_def isHexDigit_def sample_runtime_def Date_parse_sample_def field_def
          create_data_def parse_defs)
  have bad: "post_transaction sample_runtime ?bad ?db =
     (\<lparr>status = 500, json = ErrorJson ''Failed to create transaction''\<rparr>,
      \<lparr>rows = [],
       calls = [Create \<lparr>id' = JStr ''507f1f77bcf86cd799439011'', amount = NaN,
                  date = InvalidDate, description = JStr ''lunch''\<rparr>]\<rparr>)"
    by (simp add: handler_defs prisma_defs isValidObjectId_def ObjectId_isValid_spec_def
          isHex24_def isHexDigit_def sample_runtime_def field_def create_data_def parse_defs)
  have nan: "\<not> isFinite (parseFloat (field ?bad ''amount''))"
    by (simp add: field_def parse_defs)
  have ok: "status (fst (post_transaction sample_runtime ?good ?db)) = 201"
    by (simp add: good)
  note C2 = C2_stored_amount_and_date [where rt = sample_runtime and db = ?db
      and i = "''507f1f77bcf86cd799439011''"]
  from C2 [where b = ?good, THEN conjunct1, THEN mp, OF ok]
  have stored: "\<exists>tx. tx \<in> set (rows (snd (post_transaction sample_runtime ?good ?db))) \<and>
      isFinite (amount tx) \<and> isValidDate (date tx)"
    by blast
  from nan have "\<not> isFinite (parseFloat (field ?bad ''amount'')) \<or>
      \<not> isValidDate (new_Date (Date_parse sample_runtime) (field ?bad ''date''))"
    by (rule disjI1)
  from C2 [where b = ?bad, THEN conjunct2, THEN conjunct2, THEN conjunct2, THEN mp, OF this]
  have kept: "rows (snd (put_transaction sample_runtime ''507f1f77bcf86cd799439011'' ?bad ?db)) =
      rows ?db"
    by blast
  from good stored nan bad kept show ?thesis
    by simp
qed

text \<open>
  C3. For every request body with a valid-format id not already stored and coercible
  amount and date, Create succeeds with 201, and a Get with the same id then returns a
  transaction whose id, amount, date and description equal those of the created one
  (round trip). A valid-format id is a string, not empty, that the validator accepts.
\<close>

theorem C3_create_then_get:
  assumes "field b ''id'' = JStr i" and "i \<noteq> []"
    and "isValidObjectId rt (JStr i)"
    and "JStr i \<notin> stored_ids db"
    and "isFinite (parseFloat (field b ''amount''))"
    and "isValidDate (new_Date (Date_parse rt) (field b ''date''))"
  shows "\<exists>t db'. post_transaction rt b db = (\<lparr>status = 201, json = TransactionJson t\<rparr>, db') \<and>
           fst (get_transaction rt i db') = \<lparr>status = 200, json = TransactionJson t\<rparr> \<and>
           id' t = JStr i \<and>
           amount t = parseFloat (field b ''amount'') \<and>
           date t = new_Date (Date_parse rt) (field b ''date'') \<and>
           description t = field b ''description''"
proof -
  let ?t = "create_data rt b"
  have idt: "id' ?t = JStr i"
    using assms(1) by (simp add: create_data_def)
  have none: "find (\<lambda>u. id' u = JStr i) (rows db) = None"
    using assms(4) by (simp add: find_id_None)
  have found: "find (\<lambda>u. id' u = JStr i) (rows db @ [?t]) = Some ?t"
    using none idt by (rule find_append_new)
  have acc: "accepts (amount ?t) (date ?t)"
    using assms(5,6) by (simp add: accepts_def create_data_def)
  have post: "post_transaction rt b db =
      (\<lparr>status = 201, json = TransactionJson ?t\<rparr>,
       received (Create ?t) (db\<lparr>rows := rows db @ [?t]\<rparr>))"
    using assms(1,2,3) none idt acc
    by (simp add: post_transaction_def prisma_create_def res_json_def)
  have get: "fst (get_transaction rt i (received (Create ?t) (db\<lparr>rows := rows db @ [?t]\<rparr>))) =
      \<lparr>status = 200, json = TransactionJson ?t\<rparr>"
    using assms(3) found
    by (simp add: get_transaction_def prisma_findUnique_def received_def res_json_def)
  show ?thesis
    using post get idt by (simp add: create_data_def)
qed

theorem C3_create_then_get_witness:
  "fst (post_transaction sample_runtime
      [''id'' \<mapsto> JStr ''507f1f77bcf86cd799439011'', ''amount'' \<mapsto> JStr ''12.5'',
       ''date'' \<mapsto> JStr ''2023-06-01'', ''description'' \<mapsto> JStr ''lunch'']
      \<lparr>rows = [], calls = []\<rparr>) =
     \<lparr>status = 201, json = TransactionJson
        \<lparr>id' = JStr ''507f1f77bcf86cd799439011'', amount = Finite (25 / 2),
         date = DateValue 1685577600000, description = JStr ''lunch''\<rparr>\<rparr> \<and>
   fst (get_transaction sample_runtime ''507f1f77bcf86cd799439011''
      (snd (post_transaction sample_runtime
        [''id'' \<mapsto> JStr ''507f1f77bcf86cd799439011'', ''amount'' \<mapsto> JStr ''12.5'',
         ''date'' \<mapsto> JStr ''2023-06-01'', ''description'' \<mapsto> JStr ''lunch'']
        \<lparr>rows = [], calls = []\<rparr>))) =
     \<lparr>status = 200, json = TransactionJson
        \<lparr>id' = JStr ''507f1f77bcf86cd799439011'', amount = Finite (25 / 2),
         date = DateValue 1685577600000, description = JStr ''lunch''\<rparr>\<rparr>"
proof -
  let ?b = "[''id'' \<mapsto> JStr ''507f1f77bcf86cd799439011'', ''amount'' \<mapsto> JStr ''12.5'',
       ''date'' \<mapsto> JStr ''2023-06-01'', ''description'' \<mapsto> JStr ''lunch'']"
  let ?db = "\<lparr>rows = [], calls = []\<rparr>"
  have i: "field ?b ''id'' = JStr ''507f1f77bcf86cd799439011''"
    by (simp add: field_def)
  have ne: "''507f1f77bcf86cd799439011'' \<noteq> []"
    by simp
  have n: "JStr ''507f1f77bcf86cd799439011'' \<notin> stored_ids ?db"
    by (simp add: stored_ids_def)
  have a: "parseFloat (field ?b ''amount'') = Finite (25 / 2)"
    by (simp add: field_def parse_defs)
  have d: "new_Date (Date_parse sample_runtime) (field ?b ''date'') = DateValue 1685577600000"
    by (simp add: field_def sample_runtime_def Date_parse_sample_def truncate_rat_def)
  have s: "field ?b ''description'' = JStr ''lunch''"
    by (simp add: field_def)
  have fa: "isFinite (parseFloat (field ?b ''amount''))"
    unfolding a by simp
  have vd: "isValidDate (new_Date (Date_parse sample_runtime) (field ?b ''date''))"
    unfolding d by simp
  from C3_create_then_get [OF i ne sample_id_valid n fa vd]
  obtain t db' where post: "post_transaction sample_runtime ?b ?db =
        (\<lparr>status = 201, json = TransactionJson t\<rparr>, db')"
    and get: "fst (get_transaction sample_runtime ''507f1f77bcf86cd799439011'' db') =
        \<lparr>status = 200, json = TransactionJson t\<rparr>"
    and t: "id' t = JStr ''507f1f77bcf86cd799439011''"
      "amount t = parseFloat (field ?b ''amount'')"
      "date t = new_Date (Date_parse sample_runtime) (field ?b ''date'')"
      "description t = field ?b ''description''"
    by blast
  have "t = \<lparr>id' = JStr ''507f1f77bcf86cd799439011'', amount = Finite (25 / 2),
         date = DateValue 1685577600000, description = JStr ''lunch''\<rparr>"
    using t a d s by (cases t) simp
  then show ?thesis
    using post get by simp
qed

text \<open>
  C4. The claim: for every valid-format id, if a transaction with that id is already
  stored then Create with that id fails with DuplicateIdentifier (409); in particular
  creating twice with the same id gives 201 the first time and DuplicateIdentifier the
  second. The claim puts no condition on the rest of the body. With the amount
  \<^verbatim>\<open>"abc"\<close> and no date the client refuses the data before it looks the id up: the
  answer is 500, on the empty store (where the claim has 201) and on a store that holds
  the id (where the claim has 409).
\<close>

theorem C4_counterexample:
  "post_transaction sample_runtime
      [''id'' \<mapsto> JStr ''507f1f77bcf86cd799439011'', ''amount'' \<mapsto> JStr ''abc'',
       ''description'' \<mapsto> JStr ''lunch'']
      \<lparr>rows = [], calls = []\<rparr> =
     (\<lparr>status = 500, json = ErrorJson ''Failed to create transaction''\<rparr>,
      \<lparr>rows = [],
       calls = [Create \<lparr>id' = JStr ''507f1f77bcf86cd799439011'', amount = NaN,
                  date = InvalidDate, description = JStr ''lunch''\<rparr>]\<rparr>) \<and>
   fst (post_transaction sample_runtime
      [''id'' \<mapsto> JStr ''507f1f77bcf86cd799439011'', ''amount'' \<mapsto> JStr ''abc'',
       ''description'' \<mapsto> JStr ''lunch'']
      \<lparr>rows = [\<lparr>id' = JStr ''507f1f77bcf86cd799439011'', amount = Finite 1,
                  date = DateValue 0, description = JStr ''rent''\<rparr>], calls = []\<rparr>) =
     \<lparr>status = 500, json = ErrorJson ''Failed to create transaction''\<rparr>"
  by (simp add: handler_defs prisma_defs isValidObjectId_def ObjectId_isValid_spec_def
        isHex24_def isHexDigit_def sample_runtime_def field_def create_data_def parse_defs)

text \<open>
  C4, amended. For every valid-format id and every request body whose amount and date
  coerce to a finite number and a valid date: if a transaction with that id is already
  stored then Create fails with DuplicateIdentifier (409) and stores nothing; and
  creating twice with the same id, from two such bodies, gives 201 the first time and
  DuplicateIdentifier the second.
\<close>

theorem C4_duplicate_identifier:
  assumes "field b ''id'' = JStr i" and "i \<noteq> []" and "isValidObjectId rt (JStr i)"
    and "isFinite (parseFloat (field b ''amount''))"
    and "isValidDate (new_Date (Date_parse rt) (field b ''date''))"
  shows "(JStr i \<in> stored_ids db \<longrightarrow>
            fst (post_transaction rt b db) = DuplicateIdentifier \<and>
            rows (snd (post_transaction rt b db)) = rows db) \<and>
         (JStr i \<notin> stored_ids db \<and> field b2 ''id'' = JStr i \<and>
          isFinite (parseFloat (field b2 ''amount'')) \<and>
          isValidDate (new_Date (Date_parse rt) (field b2 ''date'')) \<longrightarrow>
            status (fst (post_transaction rt b db)) = 201 \<and>
            fst (post_transaction rt b2 (snd (post_transaction rt b db))) = DuplicateIdentifier)"
proof (intro conjI impI)
  have idt: "id' (create_data rt b) = JStr i"
    using assms(1) by (simp add: create_data_def)
  have acc: "accepts (amount (create_data rt b)) (date (create_data rt b))"
    using assms(4,5) by (simp add: accepts_def create_data_def)
  assume "JStr i \<in> stored_ids db"
  then obtain t where t: "find (\<lambda>t. id' t = JStr i) (rows db) = Some t"
    using find_id_Some by blast
  show "fst (post_transaction rt b db) = DuplicateIdentifier"
    using assms(1,2,3) t idt acc
    by (simp add: post_transaction_def prisma_create_def res_json_def)
  show "rows (snd (post_transaction rt b db)) = rows db"
    using assms(1,2,3) t idt acc
    by (simp add: post_transaction_def prisma_create_def res_json_def received_def)
next
  assume fresh: "JStr i \<notin> stored_ids db \<and> field b2 ''id'' = JStr i \<and>
          isFinite (parseFloat (field b2 ''amount'')) \<and>
          isValidDate (new_Date (Date_parse rt) (field b2 ''date''))"
  let ?t = "create_data rt b"
  have idt: "id' ?t = JStr i" and idt2: "id' (create_data rt b2) = JStr i"
    using assms(1) fresh by (simp_all add: create_data_def)
  have acc: "accepts (amount ?t) (date ?t)"
    using assms(4,5) by (simp add: accepts_def create_data_def)
  have acc2: "accepts (amount (create_data rt b2)) (date (create_data rt b2))"
    using fresh by (simp add: accepts_def create_data_def)
  have none: "find (\<lambda>u. id' u = JStr i) (rows db) = None"
    using fresh by (simp add: find_id_None)
  have post: "post_transaction rt b db =
      (\<lparr>status = 201, json = TransactionJson ?t\<rparr>,
       received (Create ?t) (db\<lparr>rows := rows db @ [?t]\<rparr>))"
    using assms(1,2,3) none idt acc
    by (simp add: post_transaction_def prisma_create_def res_json_def)
  show "status (fst (post_transaction rt b db)) = 201"
    by (simp add: post)
  have found: "find (\<lambda>u. id' u = JStr i) (rows db @ [?t]) = Some ?t"
    using none idt by (rule find_append_new)
  have "fst (post_transaction rt b2 (received (Create ?t) (db\<lparr>rows := rows db @ [?t]\<rparr>))) =
      DuplicateIdentifier"
    using assms(2,3) fresh idt2 found acc2
    by (simp add: post_transaction_def prisma_create_def res_json_def received_def)
  then show "fst (post_transaction rt b2 (snd (post_transaction rt b db))) = DuplicateIdentifier"
    by (simp add: post)
qed

theorem C4_duplicate_identifier_witness:
  "status (fst (post_transaction sample_runtime
      [''id'' \<mapsto> JStr ''507f1f77bcf86cd799439011'', ''amount'' \<mapsto> JNum (Finite 5),
       ''date'' \<mapsto> JStr ''2023-01-01'']
      \<lparr>rows = [], calls = []\<rparr>)) = 201 \<and>
   fst (post_transaction sample_runtime
      [''id'' \<mapsto> JStr ''507f1f77bcf86cd799439011'', ''amount'' \<mapsto> JNum (Finite 7),
       ''date'' \<mapsto> JStr ''2023-03-01'']
      (snd (post_transaction sample_runtime
        [''id'' \<mapsto> JStr ''507f1f77bcf86cd799439011'', ''amount'' \<mapsto> JNum (Finite 5),
         ''date'' \<mapsto> JStr ''2023-01-01'']
        \<lparr>rows = [], calls = []\<rparr>))) = DuplicateIdentifier \<and>
   fst (post_transaction sample_runtime
      [''id'' \<mapsto> JStr ''507f1f77bcf86cd799439011'', ''amount'' \<mapsto> JNum (Finite 5),
       ''date'' \<mapsto> JStr ''2023-01-01'']
      \<lparr>rows = [\<lparr>id' = JStr ''507f1f77bcf86cd799439011'', amount = Finite 1,
                 date = DateValue 0, description = JStr ''rent''\<rparr>], calls = []\<rparr>) =
     DuplicateIdentifier"
proof -
  let ?b = "[''id'' \<mapsto> JStr ''507f1f77bcf86cd799439011'', ''amount'' \<mapsto> JNum (Finite 5),
       ''date'' \<mapsto> JStr ''2023-01-01'']"
  let ?b2 = "[''id'' \<mapsto> JStr ''507f1f77bcf86cd799439011'', ''amount'' \<mapsto> JNum (Finite 7),
       ''date'' \<mapsto> JStr ''2023-03-01'']"
  let ?db1 = "\<lparr>rows = [\<lparr>id' = JStr ''507f1f77bcf86cd799439011'', amount = Finite 1,
                 date = DateValue 0, description = JStr ''rent''\<rparr>], calls = []\<rparr>"
  have i: "field ?b ''id'' = JStr ''507f1f77bcf86cd799439011''"
    and i2: "field ?b2 ''id'' = JStr ''507f1f77bcf86cd799439011''"
    by (simp_all add: field_def)
  have ne: "''507f1f77bcf86cd799439011'' \<noteq> []"
    by simp
  have a: "isFinite (parseFloat (field ?b ''amount''))"
    and a2: "isFinite (parseFloat (field ?b2 ''amount''))"
    by (simp_all add: field_def)
  have d: "isValidDate (new_Date (Date_parse sample_runtime) (field ?b ''date''))"
    and d2: "isValidDate (new_Date (Date_parse sample_runtime) (field ?b2 ''date''))"
    by (simp_all add: field_def sample_runtime_def Date_parse_sample_def)
  have n: "JStr ''507f1f77bcf86cd799439011'' \<notin> stored_ids \<lparr>rows = [], calls = []\<rparr>"
    and m: "JStr ''507f1f77bcf86cd799439011'' \<in> stored_ids ?db1"
    by (simp_all add: stored_ids_def)
  show ?thesis
    using n i2 a2 d2 m
      C4_duplicate_identifier [OF i ne sample_id_valid a d,
        where db = "\<lparr>rows = [], calls = []\<rparr>" and ?b2.0 = ?b2]
      C4_duplicate_identifier [OF i ne sample_id_valid a d, where db = ?db1 and ?b2.0 = ?b2]
    by blast
qed

text \<open>
  C5. The claim: for every well-formed id for which no transaction is stored, Get,
  Update and Delete each fail with NotFound (404) and leave the store unchanged. Update
  coerces the body first: with the body \<^verbatim>\<open>{"amount": 5}\<close> the date is invalid, the
  client refuses the data before it looks the id up, and the answer is 500.
\<close>

theorem C5_counterexample:
  "put_transaction sample_runtime ''507f1f77bcf86cd799439011''
      [''amount'' \<mapsto> JNum (Finite 5)] \<lparr>rows = [], calls = []\<rparr> =
     (\<lparr>status = 500, json = ErrorJson ''Failed to update transaction''\<rparr>,
      \<lparr>rows = [],
       calls = [Update (JStr ''507f1f77bcf86cd799439011'') (Finite 5) InvalidDate JUndefined]\<rparr>)"
  by (simp add: handler_defs prisma_defs isValidObjectId_def ObjectId_isValid_spec_def
        isHex24_def isHexDigit_def sample_runtime_def field_def)

text \<open>
  C5, amended. For every well-formed id for which no transaction is stored, Get and
  Delete fail with NotFound (404), and so does Update when the amount and the date of
  its body coerce to a finite number and a valid date; all three leave the stored
  transactions unchanged, whatever the body.
\<close>

theorem C5_unknown_id_not_found:
  assumes "isValidObjectId rt (JStr i)" and "JStr i \<notin> stored_ids db"
  shows "fst (get_transaction rt i db) = NotFound \<and>
         rows (snd (get_transaction rt i db)) = rows db \<and>
         (isFinite (parseFloat (field b ''amount'')) \<and>
          isValidDate (new_Date (Date_parse rt) (field b ''date'')) \<longrightarrow>
            fst (put_transaction rt i b db) = NotFound) \<and>
         rows (snd (put_transaction rt i b db)) = rows db \<and>
         fst (delete_transaction rt i db) = NotFound \<and>
         rows (snd (delete_transaction rt i db)) = rows db"
  using assms find_id_None [of "JStr i" db]
  by (simp add: handler_defs prisma_defs)

theorem C5_unknown_id_not_found_witness:
  "isValidObjectId sample_runtime (JStr ''507f1f77bcf86cd799439011'') \<and>
   JStr ''507f1f77bcf86cd799439011'' \<notin> stored_ids \<lparr>rows = [], calls = []\<rparr> \<and>
   fst (get_transaction sample_runtime ''507f1f77bcf86cd799439011'' \<lparr>rows = [], calls = []\<rparr>) =
     NotFound \<and>
   fst (put_transaction sample_runtime ''507f1f77bcf86cd799439011''
          [''amount'' \<mapsto> JNum (Finite 5), ''date'' \<mapsto> JStr ''2023-01-01'',
           ''description'' \<mapsto> JStr ''tea'']
          \<lparr>rows = [], calls = []\<rparr>) = NotFound \<and>
   fst (delete_transaction sample_runtime ''507f1f77bcf86cd799439011''
          \<lparr>rows = [], calls = []\<rparr>) = NotFound"
proof -
  let ?b = "[''amount'' \<mapsto> JNum (Finite 5), ''date'' \<mapsto> JStr ''2023-01-01'',
           ''description'' \<mapsto> JStr ''tea'']"
  have n: "JStr ''507f1f77bcf86cd799439011'' \<notin> stored_ids \<lparr>rows = [], calls = []\<rparr>"
    by (simp add: stored_ids_def)
  have c: "isFinite (parseFloat (field ?b ''amount'')) \<and>
      isValidDate (new_Date (Date_parse sample_runtime) (field ?b ''date''))"
    by (simp add: field_def sample_runtime_def Date_parse_sample_def)
  show ?thesis
    using sample_id_valid n c
      C5_unknown_id_not_found [OF sample_id_valid n, where b = ?b]
    by blast
qed

text \<open>
  C6. For every state of the store, List returns all stored transactions ordered by date
  descending (most recent first), independent of insertion order: the answer is a
  rearrangement of the stored transactions, it is in descending order of date, and a
  store holding the same transactions in another order gives the same sequence of dates.
\<close>

theorem C6_list_by_date_descending:
  "\<exists>ts. get_transactions db =
          (\<lparr>status = 200, json = TransactionList ts\<rparr>, received FindMany db) \<and>
        mset ts = mset (rows db) \<and>
        date_descending ts \<and>
        (\<forall>db2. mset (rows db2) = mset (rows db) \<longrightarrow>
           (\<exists>ts2. fst (get_transactions db2) = \<lparr>status = 200, json = TransactionList ts2\<rparr> \<and>
                  map date ts2 = map date ts))"
proof (intro exI conjI allI impI)
  show "get_transactions db =
      (\<lparr>status = 200, json = TransactionList (orderBy_date_desc (rows db))\<rparr>,
       received FindMany db)"
    by (simp add: get_transactions_def prisma_findMany_def res_json_def)
  show "mset (orderBy_date_desc (rows db)) = mset (rows db)"
    by (rule mset_orderBy_date_desc)
  show "date_descending (orderBy_date_desc (rows db))"
    by (rule date_descending_orderBy)
next
  fix db2 :: prisma
  assume "mset (rows db2) = mset (rows db)"
  then show "map date (orderBy_date_desc (rows db2)) = map date (orderBy_date_desc (rows db))"
    by (rule orderBy_dates_determined)
  show "fst (get_transactions db2) =
      \<lparr>status = 200, json = TransactionList (orderBy_date_desc (rows db2))\<rparr>"
    by (simp add: get_transactions_def prisma_findMany_def res_json_def)
qed

theorem C6_list_by_date_descending_witness:
  "fst (get_transactions
      \<lparr>rows = [\<lparr>id' = JStr ''507f1f77bcf86cd799439011'', amount = Finite 1,
                  date = DateValue 1672531200000, description = JStr ''jan''\<rparr>,
                \<lparr>id' = JStr ''507f1f77bcf86cd799439012'', amount = Finite 2,
                  date = DateValue 1685577600000, description = JStr ''jun''\<rparr>,
                \<lparr>id' = JStr ''507f1f77bcf86cd799439013'', amount = Finite 3,
                  date = DateValue 1677628800000, description = JStr ''mar''\<rparr>],
       calls = []\<rparr>) =
     \<lparr>status = 200, json = TransactionList
        [\<lparr>id' = JStr ''507f1f77bcf86cd799439012'', amount = Finite 2,
           date = DateValue 1685577600000, description = JStr ''jun''\<rparr>,
         \<lparr>id' = JStr ''507f1f77bcf86cd799439013'', amount = Finite 3,
           date = DateValue 1677628800000, description = JStr ''mar''\<rparr>,
         \<lparr>id' = JStr ''507f1f77bcf86cd799439011'', amount = Finite 1,
           date = DateValue 1672531200000, description = JStr ''jan''\<rparr>]\<rparr> \<and>
   (\<exists>ts2. fst (get_transactions
      \<lparr>rows = [\<lparr>id' = JStr ''507f1f77bcf86cd799439013'', amount = Finite 3,
                  date = DateValue 1677628800000, description = JStr ''mar''\<rparr>,
                \<lparr>id' = JStr ''507f1f77bcf86cd799439011'', amount = Finite 1,
                  date = DateValue 1672531200000, description = JStr ''jan''\<rparr>,
                \<lparr>id' = JStr ''507f1f77bcf86cd799439012'', amount = Finite 2,
                  date = DateValue 1685577600000, description = JStr ''jun''\<rparr>],
       calls = []\<rparr>) = \<lparr>status = 200, json = TransactionList ts2\<rparr> \<and>
      map date ts2 =
        [DateValue 1685577600000, DateValue 1677628800000, DateValue 1672531200000])"
proof -
  let ?jan = "\<lparr>id' = JStr ''507f1f77bcf86cd799439011'', amount = Finite 1,
                  date = DateValue 1672531200000, description = JStr ''jan''\<rparr>"
  let ?jun = "\<lparr>id' = JStr ''507f1f77bcf86cd799439012'', amount = Finite 2,
                  date = DateValue 1685577600000, description = JStr ''jun''\<rparr>"
  let ?mar = "\<lparr>id' = JStr ''507f1f77bcf86cd799439013'', amount = Finite 3,
                  date = DateValue 1677628800000, description = JStr ''mar''\<rparr>"
  let ?A = "\<lparr>rows = [?jan, ?jun, ?mar], calls = []\<rparr>"
  let ?B = "\<lparr>rows = [?mar, ?jan, ?jun], calls = []\<rparr>"
  from C6_list_by_date_descending [of ?A]
  obtain ts where get: "get_transactions ?A =
        (\<lparr>status = 200, json = TransactionList ts\<rparr>, received FindMany ?A)"
    and indep: "\<forall>db2. mset (rows db2) = mset (rows ?A) \<longrightarrow>
           (\<exists>ts2. fst (get_transactions db2) = \<lparr>status = 200, json = TransactionList ts2\<rparr> \<and>
                  map date ts2 = map date ts)"
    by blast
  have "get_transactions ?A =
      (\<lparr>status = 200, json = TransactionList [?jun, ?mar, ?jan]\<rparr>, received FindMany ?A)"
    by (simp add: get_transactions_def prisma_findMany_def res_json_def)
  with get have ts: "ts = [?jun, ?mar, ?jan]"
    by simp
  have perm: "mset (rows ?B) = mset (rows ?A)"
    by simp
  from indep perm obtain ts2 where
    "fst (get_transactions ?B) = \<lparr>status = 200, json = TransactionList ts2\<rparr>"
    "map date ts2 = map date ts"
    by blast
  then show ?thesis
    using get unfolding ts by auto
qed

text \<open>
  C7. Create validates in a fixed order: first the presence of the id (a missing id gives
  MissingIdentifier, 400), then its format (an invalid id gives InvalidIdentifier, 400);
  both checks end the request before any persistence call: the state of the client is
  returned as it was.
\<close>

theorem C7_create_validation_order:
  "(\<not> ToBoolean (field b ''id'') \<longrightarrow> post_transaction rt b db = (MissingIdentifier, db)) \<and>
   (ToBoolean (field b ''id'') \<and> \<not> isValidObjectId rt (field b ''id'') \<longrightarrow>
      post_transaction rt b db = (InvalidIdentifier, db))"
  by (simp add: post_transaction_def res_json_def)

theorem C7_create_validation_order_witness:
  "\<not> ToBoolean (field Map.empty ''id'') \<and>
   post_transaction sample_runtime Map.empty \<lparr>rows = [], calls = []\<rparr> =
     (MissingIdentifier, \<lparr>rows = [], calls = []\<rparr>) \<and>
   ToBoolean (field [''id'' \<mapsto> JStr ''not-an-id''] ''id'') \<and>
   \<not> isValidObjectId sample_runtime (field [''id'' \<mapsto> JStr ''not-an-id''] ''id'') \<and>
   post_transaction sample_runtime [''id'' \<mapsto> JStr ''not-an-id''] \<lparr>rows = [], calls = []\<rparr> =
     (InvalidIdentifier, \<lparr>rows = [], calls = []\<rparr>)"
  using C7_create_validation_order [where b = Map.empty and rt = sample_runtime
      and db = "\<lparr>rows = [], calls = []\<rparr>"]
    C7_create_validation_order [where b = "[''id'' \<mapsto> JStr ''not-an-id'']"
      and rt = sample_runtime and db = "\<lparr>rows = [], calls = []\<rparr>"]
  by (simp add: field_def isValidObjectId_def sample_runtime_def ObjectId_isValid_spec_def
        isHex24_def)




text \<open>
  C9. For every stored transaction, after a successful Delete of its id (200 with a
  confirmation message) a Get with the same id gives NotFound (404). Delete succeeds
  whenever the id is valid and stored.
\<close>

theorem C9_delete_then_get:
  assumes "isValidObjectId rt (JStr i)" and "JStr i \<in> stored_ids db"
  shows "fst (delete_transaction rt i db) =
           \<lparr>status = 200, json = MessageJson ''Transaction deleted successfully''\<rparr> \<and>
         fst (get_transaction rt i (snd (delete_transaction rt i db))) = NotFound"
proof -
  from assms(2) obtain t where t: "find (\<lambda>t. id' t = JStr i) (rows db) = Some t"
    using find_id_Some by blast
  have gone: "find (\<lambda>t. id' t = JStr i) (filter (\<lambda>u. id' u \<noteq> JStr i) (rows db)) = None"
    by (simp add: find_None_iff)
  show ?thesis
    using assms(1) t gone by (simp add: handler_defs prisma_defs)
qed

theorem C9_delete_then_get_witness:
  "isValidObjectId sample_runtime (JStr ''507f1f77bcf86cd799439011'') \<and>
   JStr ''507f1f77bcf86cd799439011'' \<in> stored_ids
     \<lparr>rows = [\<lparr>id' = JStr ''507f1f77bcf86cd799439011'', amount = Finite 1,
                 date = DateValue 0, description = JStr ''rent''\<rparr>], calls = []\<rparr> \<and>
   fst (delete_transaction sample_runtime ''507f1f77bcf86cd799439011''
     \<lparr>rows = [\<lparr>id' = JStr ''507f1f77bcf86cd799439011'', amount = Finite 1,
                 date = DateValue 0, description = JStr ''rent''\<rparr>], calls = []\<rparr>) =
     \<lparr>status = 200, json = MessageJson ''Transaction deleted successfully''\<rparr> \<and>
   fst (get_transaction sample_runtime ''507f1f77bcf86cd799439011''
     (snd (delete_transaction sample_runtime ''507f1f77bcf86cd799439011''
       \<lparr>rows = [\<lparr>id' = JStr ''507f1f77bcf86cd799439011'', amount = Finite 1,
                   date = DateValue 0, description = JStr ''rent''\<rparr>], calls = []\<rparr>))) =
     NotFound"
proof -
  let ?db1 = "\<lparr>rows = [\<lparr>id' = JStr ''507f1f77bcf86cd799439011'', amount = Finite 1,
                 date = DateValue 0, description = JStr ''rent''\<rparr>], calls = []\<rparr>"
  have m: "JStr ''507f1f77bcf86cd799439011'' \<in> stored_ids ?db1"
    by (simp add: stored_ids_def)
  show ?thesis
    using sample_id_valid m C9_delete_then_get [OF sample_id_valid m]
    by blast
qed

text \<open>
  C10. The presence check of Create tests the falsiness of the id, so a request body
  whose id is the empty string or the number 0 is answered with MissingIdentifier
  (\<^verbatim>\<open>Transaction ID is required\<close>, 400) rather than InvalidIdentifier, although the body
  has an id.
\<close>

theorem C10_falsy_id_is_missing:
  assumes "b ''id'' = Some (JStr []) \<or> b ''id'' = Some (JNum (Finite 0))"
  shows "post_transaction rt b db = (MissingIdentifier, db)"
  using assms by (auto simp: post_transaction_def res_json_def field_def)

theorem C10_falsy_id_is_missing_witness:
  "post_transaction sample_runtime [''id'' \<mapsto> JStr [], ''amount'' \<mapsto> JNum (Finite 5)]
     \<lparr>rows = [], calls = []\<rparr> = (MissingIdentifier, \<lparr>rows = [], calls = []\<rparr>) \<and>
   post_transaction sample_runtime [''id'' \<mapsto> JNum (Finite 0)]
     \<lparr>rows = [], calls = []\<rparr> = (MissingIdentifier, \<lparr>rows = [], calls = []\<rparr>)"
  using C10_falsy_id_is_missing
      [where b = "[''id'' \<mapsto> JStr [], ''amount'' \<mapsto> JNum (Finite 5)]"
       and rt = sample_runtime and db = "\<lparr>rows = [], calls = []\<rparr>"]
    C10_falsy_id_is_missing [where b = "[''id'' \<mapsto> JNum (Finite 0)]"
       and rt = sample_runtime and db = "\<lparr>rows = [], calls = []\<rparr>"]
  by simp

end
